theory Spec2Isabelle
  imports Complex_Main
begin

section \<open>FlightTaskAutoLine: numeric model\<close>

text \<open>
  The task computes with C++ \<^verbatim>\<open>float\<close>. The model idealises every finite float as a
  \<^typ>\<open>real\<close>, so rounding is not represented: a theorem below speaks about the
  arithmetic the code writes down, evaluated exactly. The non-finite value the source
  itself writes, \<^verbatim>\<open>NAN\<close>, is kept as a constructor of its own in the places where the
  source can hold it: the altitude position setpoint, the emitted setpoint vectors, and
  the yaw waypoint, where it stands for every value that \<^verbatim>\<open>PX4_ISFINITE\<close> rejects.
  Division is HOL's: it agrees with the float quotient whenever the divisor is not zero.
  The only divisor the source does not guard is the tick length \<^verbatim>\<open>_deltatime\<close>.
\<close>

datatype float = Finite real | NAN

type_synonym Vector2f = "real \<times> real"
type_synonym Vector3f = "real \<times> real \<times> real"
type_synonym Setpoint3f = "float \<times> float \<times> float"

definition SIGMA_SINGLE_OP :: real where
  "SIGMA_SINGLE_OP = 0.000001"

definition SIGMA_NORM :: real where
  "SIGMA_NORM = 0.001"

text \<open>\<^verbatim>\<open>Vector2f(&v(0))\<close>: the first two components of a three-vector; \<^verbatim>\<open>v(2)\<close>: the third.\<close>

definition xy :: "Vector3f \<Rightarrow> Vector2f" where
  "xy v = (fst v, fst (snd v))"

definition z_of :: "Vector3f \<Rightarrow> real" where
  "z_of v = snd (snd v)"

definition sub3 :: "Vector3f \<Rightarrow> Vector3f \<Rightarrow> Vector3f" where
  "sub3 a b = (fst a - fst b, fst (snd a) - fst (snd b), snd (snd a) - snd (snd b))"

definition sub2 :: "Vector2f \<Rightarrow> Vector2f \<Rightarrow> Vector2f" where
  "sub2 a b = (fst a - fst b, snd a - snd b)"

definition add2 :: "Vector2f \<Rightarrow> Vector2f \<Rightarrow> Vector2f" where
  "add2 a b = (fst a + fst b, snd a + snd b)"

definition smul2 :: "Vector2f \<Rightarrow> real \<Rightarrow> Vector2f" where
  "smul2 v k = (fst v * k, snd v * k)"

definition dot2 :: "Vector2f \<Rightarrow> Vector2f \<Rightarrow> real" where
  "dot2 a b = fst a * fst b + snd a * snd b"

definition length2 :: "Vector2f \<Rightarrow> real" where
  "length2 v = sqrt (fst v * fst v + snd v * snd v)"

definition length3 :: "Vector3f \<Rightarrow> real" where
  "length3 v = sqrt (fst v * fst v + fst (snd v) * fst (snd v) + snd (snd v) * snd (snd v))"

text \<open>
  Modelled from the spec: \<^verbatim>\<open>unit_or_zero\<close> of the matrix library is not in the source
  tree. The spec: the unit vector, and the zero vector when the length is below
  \<^verbatim>\<open>1e-6\<close>, never NaN.
\<close>

definition unit_or_zero :: "Vector2f \<Rightarrow> Vector2f" where
  "unit_or_zero v =
     (if length2 v < SIGMA_SINGLE_OP then (0, 0)
      else (fst v / length2 v, snd v / length2 v))"

text \<open>
  Modelled from the spec: \<^verbatim>\<open>math::constrain\<close> of the math library is not in the source
  tree. The spec: the value clamped into \<^verbatim>\<open>[min, max]\<close>.
\<close>

definition constrain :: "real \<Rightarrow> real \<Rightarrow> real \<Rightarrow> real" where
  "constrain val min_val max_val =
     (if val < min_val then min_val else if val > max_val then max_val else val)"

text \<open>
  Modelled from the spec: \<^verbatim>\<open>math::radians\<close> of the math library is not in the source
  tree. The spec gives the yaw-error threshold in degrees; this is the conversion.
\<close>

definition radians :: "real \<Rightarrow> real" where
  "radians deg = deg * pi / 180"

text \<open>
  Modelled from the spec: \<^verbatim>\<open>_wrap_pi\<close> of the math library is not in the source tree.
  The spec: \<^verbatim>\<open>wrap_to_pi\<close>, the angle brought into \<^verbatim>\<open>[-pi, pi)\<close> by whole turns.
\<close>

definition wrap_pi :: "real \<Rightarrow> real" where
  "wrap_pi a = a - 2 * pi * of_int \<lfloor>(a + pi) / (2 * pi)\<rfloor>"

text \<open>
  \<^verbatim>\<open>powf\<close> of the C library. The model is the real power of a positive base; the one
  call site passes a base strictly between 0 and 1 (lemma \<open>corner_fit\<close>).
\<close>

definition powf :: "real \<Rightarrow> real \<Rightarrow> real" where
  "powf b x = b powr x"

section \<open>Members of the task\<close>

text \<open>\<^verbatim>\<open>WaypointType\<close> and \<^verbatim>\<open>State\<close> are enums of the class headers.\<close>

datatype WaypointType = wp_idle | wp_land | wp_loiter | wp_position | wp_takeoff | wp_velocity

datatype State = none | target_behind | previous_infront | offtrack

text \<open>
  The members this file only reads: the vehicle state, the waypoint triplet and the
  tick context kept by the base classes, and the parameters.
\<close>

record inputs =
  wp_type :: WaypointType
  position :: Vector3f
  velocity :: Vector3f
  yaw :: real
  prev_wp :: Vector3f
  target :: Vector3f
  next_wp :: Vector3f
  yaw_wp :: float
  mc_cruise_speed :: real
  deltatime :: real
  land_speed :: real
  vel_max_up :: real
  vel_max_down :: real
  acc_max_xy :: real
  acc_xy :: real
  acc_max_up :: real
  acc_max_down :: real
  cruise_speed_90 :: real
  nav_rad :: real
  mis_yaw_error :: real

text \<open>
  The members this file writes: its own setpoints and internal segment; the emitted
  setpoints; and the messages given to \<^verbatim>\<open>PX4_WARN\<close>, oldest first.
  Modelled from the spec: the setters \<^verbatim>\<open>_setPositionSetpoint\<close>,
  \<^verbatim>\<open>_setVelocitySetpoint\<close>, \<^verbatim>\<open>_setYawSetpoint\<close> and \<^verbatim>\<open>_setThrustSetpoint\<close> of the base
  class are not in the source tree. The spec: each stores its argument as the emitted
  setpoint of that name; here each is the update of one field.
\<close>

record task =
  vel_sp_xy :: Vector2f
  pos_sp_xy :: Vector2f
  vel_sp_z :: real
  pos_sp_z :: float
  destination :: Vector3f
  origin :: Vector3f
  speed_at_target :: real
  current_state :: State
  position_setpoint :: Setpoint3f
  velocity_setpoint :: Setpoint3f
  yaw_setpoint :: float
  thrust_setpoint :: Setpoint3f
  warnings :: "string list"

definition finite3 :: "Vector3f \<Rightarrow> Setpoint3f" where
  "finite3 v = (Finite (fst v), Finite (fst (snd v)), Finite (snd (snd v)))"

text \<open>
  Modelled from the spec: the logging macro \<^verbatim>\<open>PX4_WARN\<close> is not in the source tree. The
  spec: the message is logged and the computation continues.
\<close>

definition PX4_WARN :: "string \<Rightarrow> task \<Rightarrow> task" where
  "PX4_WARN msg s = s\<lparr>warnings := warnings s @ [msg]\<rparr>"

section \<open>Corner-speed evaluator\<close>

text \<open>
  The middle cruise speed after the two adjustments the source makes to the parameter:
  raised to \<^verbatim>\<open>SIGMA_NORM\<close> above the minimum, then replaced by the midpoint when it is
  not below the cruise speed by \<^verbatim>\<open>SIGMA_NORM\<close>.
\<close>

definition middle_cruise_speed :: "inputs \<Rightarrow> real" where
  "middle_cruise_speed e =
     (let min_cruise_speed = 0;
          middle0 = cruise_speed_90 e;
          middle1 = (if middle0 - min_cruise_speed < SIGMA_NORM
                     then min_cruise_speed + SIGMA_NORM else middle0)
      in if mc_cruise_speed e - middle1 < SIGMA_NORM
         then (mc_cruise_speed e + min_cruise_speed) * 0.5 else middle1)"

text \<open>
  The linear branch and the early return only halve, double and add zero, which is
  exact in \<^verbatim>\<open>float\<close>. The exponential branch is the exact value of the expression the
  source evaluates in \<^verbatim>\<open>float\<close>, where the subtractions cancel and the result is rounded:
  of that branch the theorems below use the signs of the coefficients and the ordering
  of the values, never an exact value.
\<close>

definition getVelocityFromAngle :: "inputs \<Rightarrow> real \<Rightarrow> real" where
  "getVelocityFromAngle e angle =
     (let min_cruise_speed = 0 in
      if mc_cruise_speed e - min_cruise_speed < SIGMA_NORM then mc_cruise_speed e
      else
        let middle = middle_cruise_speed e;
            use_linear_approach =
              ((mc_cruise_speed e + min_cruise_speed) * 0.5 - middle < SIGMA_NORM);
            speed_close =
              (if use_linear_approach then
                 (let slope = - (mc_cruise_speed e - min_cruise_speed) / 2
                  in slope * angle + mc_cruise_speed e)
               else
                 (let a = - ((middle - mc_cruise_speed e) * (middle - mc_cruise_speed e))
                          / (2 * middle - mc_cruise_speed e - min_cruise_speed);
                      c = mc_cruise_speed e - a;
                      b = (middle - c) / a
                  in a * powf b angle + c))
        in constrain speed_close min_cruise_speed (mc_cruise_speed e))"

section \<open>Reset and the fixed modes\<close>

definition reset :: "inputs \<Rightarrow> task \<Rightarrow> task" where
  "reset e s =
     s\<lparr>vel_sp_xy := xy (velocity e),
       pos_sp_xy := xy (position e),
       vel_sp_z := z_of (velocity e),
       pos_sp_z := Finite (z_of (position e)),
       destination := target e,
       origin := prev_wp e,
       speed_at_target := 0\<rparr>"

definition generateIdleSetpoints :: "inputs \<Rightarrow> task \<Rightarrow> task" where
  "generateIdleSetpoints e s =
     reset e (s\<lparr>thrust_setpoint := (Finite 0, Finite 0, Finite 0)\<rparr>)"

definition generateLandSetpoints :: "inputs \<Rightarrow> task \<Rightarrow> task" where
  "generateLandSetpoints e s =
     reset e
       (s\<lparr>position_setpoint := (Finite (fst (target e)), Finite (fst (snd (target e))), NAN),
          velocity_setpoint := (NAN, NAN, Finite (land_speed e))\<rparr>)"

definition generateTakeoffSetpoints :: "inputs \<Rightarrow> task \<Rightarrow> task" where
  "generateTakeoffSetpoints e s = reset e (s\<lparr>position_setpoint := finite3 (target e)\<rparr>)"

definition generateVelocitySetpoints :: "inputs \<Rightarrow> task \<Rightarrow> task" where
  "generateVelocitySetpoints e s =
     (let vel_sp = smul2 (unit_or_zero (xy (velocity e))) (mc_cruise_speed e)
      in reset e
           (s\<lparr>position_setpoint := (NAN, NAN, Finite (z_of (position e))),
              velocity_setpoint := (Finite (fst vel_sp), Finite (snd vel_sp), NAN)\<rparr>))"

section \<open>Segment selector\<close>

text \<open>
  The source repeats one block in each of its four actions: with \<^verbatim>\<open>_destination\<close> and
  \<^verbatim>\<open>_origin\<close> just assigned, \<^verbatim>\<open>_speed_at_target\<close> is 0 unless the next waypoint is
  off the destination and the segment is longer than the acceptance radius; then it is
  the corner speed of \<^verbatim>\<open>angle\<close>.
\<close>

definition corner_angle :: "inputs \<Rightarrow> Vector3f \<Rightarrow> Vector3f \<Rightarrow> real" where
  "corner_angle e dest orig =
     dot2 (unit_or_zero (xy (sub3 dest orig))) (unit_or_zero (xy (sub3 dest (next_wp e)))) + 1"

definition speed_at_target_for :: "inputs \<Rightarrow> Vector3f \<Rightarrow> Vector3f \<Rightarrow> real" where
  "speed_at_target_for e dest orig =
     (if length2 (xy (sub3 dest (next_wp e))) > 0.001
         \<and> length2 (xy (sub3 dest orig)) > nav_rad e
      then getVelocityFromAngle e (corner_angle e dest orig)
      else 0)"

definition enter :: "inputs \<Rightarrow> State \<Rightarrow> Vector3f \<Rightarrow> Vector3f \<Rightarrow> task \<Rightarrow> task" where
  "enter e st dest orig s =
     s\<lparr>destination := dest,
       origin := orig,
       current_state := st,
       speed_at_target := speed_at_target_for e dest orig\<rparr>"

definition u_prev_to_target :: "inputs \<Rightarrow> Vector2f" where
  "u_prev_to_target e = unit_or_zero (xy (sub3 (target e) (prev_wp e)))"

definition track_closest_pt :: "inputs \<Rightarrow> Vector2f" where
  "track_closest_pt e =
     add2 (xy (prev_wp e))
       (smul2 (u_prev_to_target e)
          (dot2 (xy (sub3 (position e) (prev_wp e))) (u_prev_to_target e)))"

text \<open>The three conditions of the source's \<^verbatim>\<open>if\<close> chain, in its order.\<close>

definition is_target_behind :: "inputs \<Rightarrow> bool" where
  "is_target_behind e \<longleftrightarrow>
     dot2 (u_prev_to_target e) (xy (sub3 (target e) (position e))) < 0"

definition is_previous_infront :: "inputs \<Rightarrow> bool" where
  "is_previous_infront e \<longleftrightarrow>
     dot2 (u_prev_to_target e) (xy (sub3 (position e) (prev_wp e))) < 0
     \<and> length2 (xy (sub3 (position e) (prev_wp e))) > mc_cruise_speed e"

definition is_offtrack :: "inputs \<Rightarrow> bool" where
  "is_offtrack e \<longleftrightarrow>
     length2 (sub2 (xy (position e)) (track_closest_pt e)) > mc_cruise_speed e"

definition updateInternalWaypoints :: "inputs \<Rightarrow> task \<Rightarrow> task" where
  "updateInternalWaypoints e s =
     (if is_target_behind e then
        (if current_state s \<noteq> target_behind
         then enter e target_behind (target e) (position e) s else s)
      else if is_previous_infront e then
        (if current_state s \<noteq> previous_infront
         then enter e previous_infront (prev_wp e) (position e) s else s)
      else if is_offtrack e then
        (if current_state s \<noteq> offtrack
         then enter e offtrack
                (fst (track_closest_pt e), snd (track_closest_pt e), z_of (target e))
                (position e) s
         else s)
      else
        (if length3 (sub3 (target e) (destination s)) > 0.01
         then enter e none (target e) (prev_wp e) s else s))"

text \<open>
  Which recovery predicate the selector evaluates on a tick: the first of the three that
  holds, or nothing on an on-segment tick.
\<close>

definition recovery_state :: "inputs \<Rightarrow> State option" where
  "recovery_state e =
     (if is_target_behind e then Some target_behind
      else if is_previous_infront e then Some previous_infront
      else if is_offtrack e then Some offtrack
      else None)"

section \<open>Z profile generator\<close>

text \<open>
  \<^verbatim>\<open>speed_sp\<close> as the moving branch computes it, before a negative value is raised to 0
  (with a warning) and the sign is set. With \<^verbatim>\<open>speed_sp = 0\<close> the divisor of \<^verbatim>\<open>slope\<close>
  is zero; then neither branch that reads \<^verbatim>\<open>slope\<close> can be taken.
\<close>

definition flying_upward :: "inputs \<Rightarrow> task \<Rightarrow> bool" where
  "flying_upward e s \<longleftrightarrow> z_of (destination s) < z_of (position e)"

definition altitude_speed :: "inputs \<Rightarrow> task \<Rightarrow> real" where
  "altitude_speed e s =
     (let dist = \<bar>z_of (destination s) - z_of (origin s)\<bar>;
          dist_to_prev = \<bar>z_of (position e) - z_of (origin s)\<bar>;
          dist_to_target = \<bar>z_of (destination s) - z_of (position e)\<bar>;
          speed_sp0 = (if flying_upward e s then vel_max_up e else vel_max_down e);
          target_threshold0 = speed_sp0 * 1.5;
          is_2_target_threshold = (dist \<ge> 2 * target_threshold0);
          min_vel = 0.2;
          slope = (speed_sp0 - min_vel) / target_threshold0;
          target_threshold = (if \<not> is_2_target_threshold then dist * 0.5 else target_threshold0);
          speed_sp1 = (if \<not> is_2_target_threshold
                       then slope * target_threshold + min_vel else speed_sp0)
      in if dist_to_target < target_threshold then slope * dist_to_target + min_vel
         else if dist_to_prev < target_threshold then
           (let acc = (speed_sp1 - \<bar>vel_sp_z s\<bar>) / deltatime e;
                acc_max = (if flying_upward e s then acc_max_up e * 0.5 else acc_max_down e * 0.5)
            in if acc > acc_max then acc_max * deltatime e + \<bar>vel_sp_z s\<bar> else speed_sp1)
         else speed_sp1)"

definition generateAltitudeSetpoints :: "inputs \<Rightarrow> task \<Rightarrow> task" where
  "generateAltitudeSetpoints e s =
     (let dist = \<bar>z_of (destination s) - z_of (origin s)\<bar>
      in if dist > SIGMA_NORM \<and> \<bar>z_of (position e) - z_of (destination s)\<bar> > 0.1 then
           (let speed_sp0 = altitude_speed e s;
                s1 = (if speed_sp0 < 0 then PX4_WARN ''speed cannot be smaller than 0'' s else s);
                speed_sp = (if speed_sp0 < 0 then 0 else speed_sp0)
            in s1\<lparr>vel_sp_z := (if flying_upward e s then - speed_sp else speed_sp),
                  pos_sp_z := NAN\<rparr>)
         else s\<lparr>vel_sp_z := 0, pos_sp_z := Finite (z_of (target e))\<rparr>)"

text \<open>
  The tick is in the moving part of the profile and takes its accelerate branch: not
  within the threshold of the target, within the threshold of the origin.
\<close>

definition altitude_accelerate_branch :: "inputs \<Rightarrow> task \<Rightarrow> bool" where
  "altitude_accelerate_branch e s \<longleftrightarrow>
     (let dist = \<bar>z_of (destination s) - z_of (origin s)\<bar>;
          dist_to_prev = \<bar>z_of (position e) - z_of (origin s)\<bar>;
          dist_to_target = \<bar>z_of (destination s) - z_of (position e)\<bar>;
          speed_sp0 = (if flying_upward e s then vel_max_up e else vel_max_down e);
          target_threshold0 = speed_sp0 * 1.5;
          is_2_target_threshold = (dist \<ge> 2 * target_threshold0);
          target_threshold = (if \<not> is_2_target_threshold then dist * 0.5 else target_threshold0)
      in dist > SIGMA_NORM \<and> \<bar>z_of (position e) - z_of (destination s)\<bar> > 0.1
         \<and> \<not> dist_to_target < target_threshold \<and> dist_to_prev < target_threshold)"

section \<open>XY profile generator\<close>

definition has_reached_altitude :: "inputs \<Rightarrow> task \<Rightarrow> bool" where
  "has_reached_altitude e s \<longleftrightarrow> \<bar>z_of (destination s) - z_of (position e)\<bar> < nav_rad e"

definition lock_condition :: "inputs \<Rightarrow> task \<Rightarrow> bool" where
  "lock_condition e s \<longleftrightarrow>
     (let pos_sp_to_dest = sub2 (xy (target e)) (pos_sp_xy s)
      in (speed_at_target s < 0.001 \<and> length2 pos_sp_to_dest < nav_rad e)
         \<or> (\<not> has_reached_altitude e s \<and> length2 pos_sp_to_dest < nav_rad e))"

definition u_prev_to_dest :: "task \<Rightarrow> Vector2f" where
  "u_prev_to_dest s = unit_or_zero (xy (sub3 (destination s) (origin s)))"

definition xy_target_threshold :: "inputs \<Rightarrow> task \<Rightarrow> real" where
  "xy_target_threshold e s =
     (let target_threshold = 1.5 * mc_cruise_speed e;
          prev_to_dest = xy (sub3 (destination s) (origin s))
      in if target_threshold < 0.5 * length2 prev_to_dest
         then 0.5 * length2 prev_to_dest else target_threshold)"

definition xy_speed_threshold :: "inputs \<Rightarrow> task \<Rightarrow> real" where
  "xy_speed_threshold e s =
     (let threshold_max = 1.5 * mc_cruise_speed e
      in if threshold_max > nav_rad e then
           (let m = (mc_cruise_speed e - speed_at_target s) / (threshold_max - nav_rad e)
            in m * (xy_target_threshold e s - nav_rad e) + speed_at_target s)
         else mc_cruise_speed e)"

definition speed_sp_prev_track :: "task \<Rightarrow> real" where
  "speed_sp_prev_track s = max (dot2 (vel_sp_xy s) (u_prev_to_dest s)) 0"

text \<open>
  The two branches of "either accelerate or decelerate". Each returns the task, with the
  members the branch wrote, and \<^verbatim>\<open>speed_sp_track\<close>. The thresholds are computed before the
  branch, from the state on entry, and passed in.
\<close>

definition xy_decelerate :: "inputs \<Rightarrow> real \<Rightarrow> real \<Rightarrow> task \<Rightarrow> task \<times> real" where
  "xy_decelerate e target_threshold speed_threshold s =
     (let closest_to_dest = xy (sub3 (destination s) (position e));
          prev_track = speed_sp_prev_track s;
          s1 = (if \<not> has_reached_altitude e s then s\<lparr>speed_at_target := 0\<rparr> else s);
          acceptance_radius = (if speed_at_target s1 < 0.01 then 0 else nav_rad e);
          speed_sp_track =
            (if target_threshold - acceptance_radius \<ge> SIGMA_NORM then
               (let m = (speed_threshold - speed_at_target s1)
                        / (target_threshold - acceptance_radius)
                in m * (length2 closest_to_dest - acceptance_radius) + speed_at_target s1)
             else speed_at_target s1)
      in if prev_track < speed_sp_track \<and> speed_sp_track * prev_track > 0
            \<and> prev_track > speed_at_target s1
         then (s1, prev_track) else (s1, speed_sp_track))"

definition xy_accelerate :: "inputs \<Rightarrow> task \<Rightarrow> task \<times> real" where
  "xy_accelerate e s =
     (let speed_sp_track = mc_cruise_speed e;
          prev_track = speed_sp_prev_track s;
          acc_track = (speed_sp_track - prev_track) / deltatime e;
          (s1, yaw_diff) =
            (case yaw_wp e of
               Finite y \<Rightarrow> (PX4_WARN ''Yaw Waypoint not finite'' s, wrap_pi (y - yaw e))
             | NAN \<Rightarrow> (s, 0));
          acc_max = (if \<bar>yaw_diff\<bar> > radians (mis_yaw_error e) then 0.5 else acc_xy e)
      in if acc_track > acc_max then (s1, acc_max * deltatime e + prev_track)
         else (s1, speed_sp_track))"

definition generateXYsetpoints :: "inputs \<Rightarrow> task \<Rightarrow> task" where
  "generateXYsetpoints e s =
     (if lock_condition e s then
        s\<lparr>pos_sp_xy := xy (destination s), vel_sp_xy := (0, 0)\<rparr>
      else
        (let prev_to_pos = xy (sub3 (position e) (origin s));
             closest_pt = add2 (xy (origin s))
                            (smul2 (u_prev_to_dest s) (dot2 prev_to_pos (u_prev_to_dest s)));
             closest_to_dest = xy (sub3 (destination s) (position e));
             target_threshold = xy_target_threshold e s;
             speed_threshold = xy_speed_threshold e s;
             (s1, speed_sp_track0) =
               (if length2 closest_to_dest < target_threshold
                then xy_decelerate e target_threshold speed_threshold s
                else xy_accelerate e s);
             speed_sp_track = constrain speed_sp_track0 0 (mc_cruise_speed e)
         in s1\<lparr>pos_sp_xy := closest_pt,
               vel_sp_xy := smul2 (u_prev_to_dest s) speed_sp_track\<rparr>))"

text \<open>Which of the two profile branches a tick takes, when it does not lock.\<close>

definition decelerate_branch :: "inputs \<Rightarrow> task \<Rightarrow> bool" where
  "decelerate_branch e s \<longleftrightarrow>
     \<not> lock_condition e s
     \<and> length2 (xy (sub3 (destination s) (position e))) < xy_target_threshold e s"

definition accelerate_branch :: "inputs \<Rightarrow> task \<Rightarrow> bool" where
  "accelerate_branch e s \<longleftrightarrow>
     \<not> lock_condition e s
     \<and> \<not> length2 (xy (sub3 (destination s) (position e))) < xy_target_threshold e s"

section \<open>Mode dispatcher\<close>

definition generateSetpoints :: "inputs \<Rightarrow> task \<Rightarrow> task" where
  "generateSetpoints e s =
     (let s1 = generateXYsetpoints e (generateAltitudeSetpoints e (updateInternalWaypoints e s))
      in s1\<lparr>position_setpoint :=
              (Finite (fst (pos_sp_xy s1)), Finite (snd (pos_sp_xy s1)), pos_sp_z s1),
            velocity_setpoint :=
              (Finite (fst (vel_sp_xy s1)), Finite (snd (vel_sp_xy s1)), Finite (vel_sp_z s1))\<rparr>)"

definition update :: "inputs \<Rightarrow> task \<Rightarrow> task" where
  "update e s =
     (let s1 = (case wp_type e of
                  wp_idle \<Rightarrow> generateIdleSetpoints e s
                | wp_land \<Rightarrow> generateLandSetpoints e s
                | wp_loiter \<Rightarrow> generateSetpoints e s
                | wp_position \<Rightarrow> generateSetpoints e s
                | wp_takeoff \<Rightarrow> generateTakeoffSetpoints e s
                | wp_velocity \<Rightarrow> generateVelocitySetpoints e s)
      in s1\<lparr>yaw_setpoint := yaw_wp e\<rparr>)"

text \<open>An update in loiter or position mode takes the lock branch of the XY generator.\<close>

definition update_locks :: "inputs \<Rightarrow> task \<Rightarrow> bool" where
  "update_locks e s \<longleftrightarrow>
     lock_condition e (generateAltitudeSetpoints e (updateInternalWaypoints e s))"

section \<open>Scenarios\<close>

text \<open>
  The spec's concrete scenario (acceptance radius 0.5, cruise 5, cruise at 90 degrees 3,
  horizontal acceleration 3, tick 0.02 s, yaw error 12 degrees, yaw and yaw waypoint 0),
  flying the leg from the origin to 100 m north, and a task that has just been reset at
  the start of that leg.
\<close>

definition scenario :: inputs where
  "scenario =
     \<lparr>wp_type = wp_position, position = (10, 0, 0), velocity = (0, 0, 0), yaw = 0,
      prev_wp = (0, 0, 0), target = (100, 0, 0), next_wp = (200, 0, 0), yaw_wp = Finite 0,
      mc_cruise_speed = 5, deltatime = 0.02, land_speed = 0.7,
      vel_max_up = 3, vel_max_down = 3, acc_max_xy = 5, acc_xy = 3,
      acc_max_up = 4, acc_max_down = 2, cruise_speed_90 = 3, nav_rad = 0.5,
      mis_yaw_error = 12\<rparr>"

definition fresh :: task where
  "fresh =
     \<lparr>vel_sp_xy = (0, 0), pos_sp_xy = (0, 0), vel_sp_z = 0, pos_sp_z = Finite 0,
      destination = (100, 0, 0), origin = (0, 0, 0), speed_at_target = 0,
      current_state = none,
      position_setpoint = (NAN, NAN, NAN), velocity_setpoint = (NAN, NAN, NAN),
      yaw_setpoint = NAN, thrust_setpoint = (NAN, NAN, NAN), warnings = []\<rparr>"

text \<open>
  Two metres short of a target that lies ten metres higher, with a pass-through speed of
  3 m/s chosen for the corner: the altitude is not reached.
\<close>

definition climbing :: inputs where
  "climbing = scenario\<lparr>position := (98, 0, 0), target := (100, 0, -10)\<rparr>"

definition approaching :: task where
  "approaching = fresh\<lparr>destination := (100, 0, -10), pos_sp_xy := (97, 0),
                       vel_sp_xy := (1, 0), speed_at_target := 3\<rparr>"

text \<open>
  A descent with both vertical speed limits at 0.125 m/s, below the minimum velocity of
  the Z profile, 0.125 m above the target altitude.
\<close>

definition slow_descent :: inputs where
  "slow_descent = scenario\<lparr>position := (0, 0, 9.875), target := (0, 0, 10),
                           vel_max_up := 0.125, vel_max_down := 0.125\<rparr>"

definition descending :: task where
  "descending = fresh\<lparr>destination := (0, 0, 10)\<rparr>"

text \<open>
  At the start of a climb of 20 m straight up, just reset; and holding at the target of
  the leg, at its altitude.
\<close>

definition climb_start :: inputs where
  "climb_start = scenario\<lparr>position := (0, 0, 0), target := (0, 0, -20)\<rparr>"

definition on_ground :: task where
  "on_ground = fresh\<lparr>destination := (0, 0, -20)\<rparr>"

definition arrived :: inputs where
  "arrived = scenario\<lparr>position := (100, 0, 0)\<rparr>"

definition holding :: task where
  "holding = fresh\<lparr>pos_sp_xy := (100, 0)\<rparr>"

section \<open>Vector facts\<close>

lemma length2_x [simp]: "length2 (x, 0) = \<bar>x\<bar>"
  by (simp add: length2_def)

lemma length2_y [simp]: "length2 (0, y) = \<bar>y\<bar>"
  by (simp add: length2_def)

lemma length3_x [simp]: "length3 (x, 0, 0) = \<bar>x\<bar>"
  by (simp add: length3_def)

lemma length2_nonneg: "0 \<le> length2 v"
  by (simp add: length2_def)

lemma sub3_self [simp]: "sub3 v v = (0, 0, 0)"
  by (simp add: sub3_def)

lemma length2_smul2: "length2 (smul2 v k) = \<bar>k\<bar> * length2 v"
proof -
  have "fst v * k * (fst v * k) + snd v * k * (snd v * k)
          = (k * k) * (fst v * fst v + snd v * snd v)"
    by (simp add: algebra_simps)
  then show ?thesis
    by (simp add: length2_def smul2_def real_sqrt_mult)
qed

lemma length2_unit_or_zero: "length2 (unit_or_zero v) = 0 \<or> length2 (unit_or_zero v) = 1"
proof (cases "length2 v < SIGMA_SINGLE_OP")
  case True
  then show ?thesis by (simp add: unit_or_zero_def)
next
  case False
  then have pos: "0 < length2 v" by (simp add: SIGMA_SINGLE_OP_def)
  have "unit_or_zero v = smul2 v (1 / length2 v)"
    using False by (simp add: unit_or_zero_def smul2_def)
  then have "length2 (unit_or_zero v) = \<bar>1 / length2 v\<bar> * length2 v"
    by (simp only: length2_smul2)
  with pos show ?thesis by simp
qed

section \<open>Segment selector: hysteresis\<close>

lemma selector_resident:
  "recovery_state e = Some (current_state s) \<Longrightarrow> updateInternalWaypoints e s = s"
  by (auto simp: recovery_state_def updateInternalWaypoints_def split: if_splits)

lemma scenario_behind:
  "recovery_state (scenario\<lparr>position := (105, 0, 0)\<rparr>) = Some target_behind"
  by (simp add: recovery_state_def is_target_behind_def u_prev_to_target_def scenario_def
      sub3_def xy_def unit_or_zero_def dot2_def SIGMA_SINGLE_OP_def)

text \<open>
  C4. On a tick where the first recovery predicate that holds (target behind, previous in
  front, off track) belongs to the state the selector is already in, the selector leaves
  origin, destination, speed at target and the selector state as they are: the action of
  a state runs on entry only.
\<close>

theorem selector_edge_triggered:
  assumes "recovery_state e = Some st" and "current_state s = st"
  shows "origin (updateInternalWaypoints e s) = origin s
       \<and> destination (updateInternalWaypoints e s) = destination s
       \<and> speed_at_target (updateInternalWaypoints e s) = speed_at_target s
       \<and> current_state (updateInternalWaypoints e s) = current_state s"
  using assms by (simp add: selector_resident)

theorem selector_edge_triggered_witness:
  "recovery_state (scenario\<lparr>position := (105, 0, 0)\<rparr>) = Some target_behind
   \<and> current_state (fresh\<lparr>current_state := target_behind\<rparr>) = target_behind
   \<and> origin (updateInternalWaypoints (scenario\<lparr>position := (105, 0, 0)\<rparr>)
                (fresh\<lparr>current_state := target_behind\<rparr>)) = (0, 0, 0)
   \<and> destination (updateInternalWaypoints (scenario\<lparr>position := (105, 0, 0)\<rparr>)
                (fresh\<lparr>current_state := target_behind\<rparr>)) = (100, 0, 0)"
  using selector_edge_triggered
          [OF scenario_behind, of "fresh\<lparr>current_state := target_behind\<rparr>"]
  by (simp add: scenario_behind fresh_def)

section \<open>Land mode\<close>

text \<open>
  C8. In land mode every update emits the position setpoint (target x, target y, NaN) and
  the velocity setpoint (NaN, NaN, land speed), the NaN components reaching the output
  as they are, and the internal setpoints are reset to the current vehicle state.
\<close>

theorem land_setpoints:
  assumes "wp_type e = wp_land"
  shows "position_setpoint (update e s)
           = (Finite (fst (target e)), Finite (fst (snd (target e))), NAN)
       \<and> velocity_setpoint (update e s) = (NAN, NAN, Finite (land_speed e))
       \<and> pos_sp_xy (update e s) = xy (position e)
       \<and> pos_sp_z (update e s) = Finite (z_of (position e))
       \<and> vel_sp_xy (update e s) = xy (velocity e)
       \<and> vel_sp_z (update e s) = z_of (velocity e)
       \<and> destination (update e s) = target e
       \<and> origin (update e s) = prev_wp e
       \<and> speed_at_target (update e s) = 0"
  using assms by (simp add: update_def generateLandSetpoints_def reset_def)

theorem land_setpoints_witness:
  "wp_type (scenario\<lparr>wp_type := wp_land\<rparr>) = wp_land
   \<and> position_setpoint (update (scenario\<lparr>wp_type := wp_land\<rparr>) fresh)
       = (Finite 100, Finite 0, NAN)
   \<and> velocity_setpoint (update (scenario\<lparr>wp_type := wp_land\<rparr>) fresh)
       = (NAN, NAN, Finite 0.7)
   \<and> pos_sp_xy (update (scenario\<lparr>wp_type := wp_land\<rparr>) fresh) = (10, 0)"
  using land_setpoints [of "scenario\<lparr>wp_type := wp_land\<rparr>" fresh]
  by (simp add: scenario_def xy_def)

section \<open>Reset and the selector state\<close>

lemma scenario_on_segment: "recovery_state scenario = None"
  by (simp add: recovery_state_def is_target_behind_def is_previous_infront_def is_offtrack_def
      track_closest_pt_def u_prev_to_target_def scenario_def
      sub3_def sub2_def add2_def smul2_def xy_def unit_or_zero_def dot2_def SIGMA_SINGLE_OP_def)

lemma on_segment_same_target:
  "recovery_state e = None \<Longrightarrow> destination s = target e \<Longrightarrow> updateInternalWaypoints e s = s"
  by (auto simp: recovery_state_def updateInternalWaypoints_def split: if_splits)

text \<open>
  C10. A reset overwrites the position and velocity setpoints from the vehicle state and
  sets origin to the previous waypoint, destination to the target and the speed at target
  to 0, and leaves the selector state as it was. The destination then being the target,
  an on-segment tick with the same target changes nothing, so the recovery state is
  retained; and a later tick that enters that same recovery state changes nothing
  either: its action is suppressed.
\<close>

theorem reset_keeps_selector_state:
  assumes "recovery_state e2 = Some (current_state s)"
    and "recovery_state e1 = None" and "target e1 = target e0"
  shows "pos_sp_xy (reset e0 s) = xy (position e0)
       \<and> pos_sp_z (reset e0 s) = Finite (z_of (position e0))
       \<and> vel_sp_xy (reset e0 s) = xy (velocity e0)
       \<and> vel_sp_z (reset e0 s) = z_of (velocity e0)
       \<and> origin (reset e0 s) = prev_wp e0
       \<and> destination (reset e0 s) = target e0
       \<and> speed_at_target (reset e0 s) = 0
       \<and> current_state (reset e0 s) = current_state s
       \<and> updateInternalWaypoints e1 (reset e0 s) = reset e0 s
       \<and> updateInternalWaypoints e2 (updateInternalWaypoints e1 (reset e0 s)) = reset e0 s"
proof -
  have st: "current_state (reset e0 s) = current_state s"
    by (simp add: reset_def)
  have dest: "destination (reset e0 s) = target e1"
    using assms(3) by (simp add: reset_def)
  have stay: "updateInternalWaypoints e1 (reset e0 s) = reset e0 s"
    using assms(2) dest by (rule on_segment_same_target)
  have "updateInternalWaypoints e2 (reset e0 s) = reset e0 s"
    using assms(1) st by (simp add: selector_resident)
  with stay st show ?thesis
    by (simp add: reset_def)
qed

theorem reset_keeps_selector_state_witness:
  "recovery_state (scenario\<lparr>position := (105, 0, 0)\<rparr>)
     = Some (current_state (fresh\<lparr>current_state := target_behind\<rparr>))
   \<and> recovery_state scenario = None \<and> target scenario = target scenario
   \<and> current_state (reset scenario (fresh\<lparr>current_state := target_behind\<rparr>)) = target_behind
   \<and> origin (updateInternalWaypoints (scenario\<lparr>position := (105, 0, 0)\<rparr>)
       (updateInternalWaypoints scenario
          (reset scenario (fresh\<lparr>current_state := target_behind\<rparr>)))) = (0, 0, 0)"
proof -
  have h: "recovery_state (scenario\<lparr>position := (105, 0, 0)\<rparr>)
     = Some (current_state (fresh\<lparr>current_state := target_behind\<rparr>))"
    by (simp add: scenario_behind)
  have o: "origin (reset scenario (fresh\<lparr>current_state := target_behind\<rparr>)) = (0, 0, 0)"
    by (simp add: reset_def scenario_def)
  have c: "current_state (reset scenario (fresh\<lparr>current_state := target_behind\<rparr>)) = target_behind"
    by (simp add: reset_def)
  from reset_keeps_selector_state [OF h scenario_on_segment refl [of "target scenario"]]
  have "updateInternalWaypoints (scenario\<lparr>position := (105, 0, 0)\<rparr>)
       (updateInternalWaypoints scenario
          (reset scenario (fresh\<lparr>current_state := target_behind\<rparr>)))
        = reset scenario (fresh\<lparr>current_state := target_behind\<rparr>)"
    by blast
  with h o c scenario_on_segment show ?thesis
    by simp
qed

section \<open>XY profile generator: the overwrite of the speed at target\<close>

lemma climbing_decelerates: "decelerate_branch climbing approaching \<and> \<not> has_reached_altitude climbing approaching"
  by (simp add: decelerate_branch_def lock_condition_def has_reached_altitude_def
      xy_target_threshold_def climbing_def approaching_def scenario_def fresh_def
      sub3_def sub2_def xy_def z_of_def)

text \<open>
  C3, as the code has it. On a tick that runs the decelerate branch with the altitude not
  reached, the 0 forced into the speed at target is written to the member itself: after
  the XY generator has returned, the persisted speed at target is 0.
\<close>

theorem speed_at_target_overwritten:
  assumes "decelerate_branch e s" and "\<not> has_reached_altitude e s"
  shows "speed_at_target (generateXYsetpoints e s) = 0"
  using assms
  by (simp add: decelerate_branch_def generateXYsetpoints_def xy_decelerate_def Let_def)

theorem speed_at_target_overwritten_witness:
  "decelerate_branch climbing approaching \<and> \<not> has_reached_altitude climbing approaching
   \<and> speed_at_target approaching = 3
   \<and> speed_at_target (generateXYsetpoints climbing approaching) = 0"
  using speed_at_target_overwritten [of climbing approaching] climbing_decelerates
  by (simp add: approaching_def)

text \<open>
  C3, as stated, fails: the speed at target was 3 before the tick and is not after it.
\<close>

theorem speed_at_target_overwrite_persists_counterexample:
  "decelerate_branch climbing approaching \<and> \<not> has_reached_altitude climbing approaching
   \<and> speed_at_target (generateXYsetpoints climbing approaching) \<noteq> speed_at_target approaching"
proof -
  have "speed_at_target (generateXYsetpoints climbing approaching) = 0"
    using climbing_decelerates
    by (simp add: decelerate_branch_def generateXYsetpoints_def xy_decelerate_def Let_def)
  then show ?thesis
    using climbing_decelerates by (simp add: approaching_def)
qed

section \<open>XY profile generator: the yaw warning\<close>

lemma accel_warnings:
  "accelerate_branch e s \<Longrightarrow>
   warnings (generateXYsetpoints e s)
     = (case yaw_wp e of Finite y \<Rightarrow> warnings s @ [''Yaw Waypoint not finite''] | NAN \<Rightarrow> warnings s)"
  by (simp add: accelerate_branch_def generateXYsetpoints_def xy_accelerate_def Let_def PX4_WARN_def
       split: float.splits prod.splits)

lemma scenario_accelerates: "accelerate_branch (scenario\<lparr>yaw_wp := w\<rparr>) fresh"
  by (simp add: accelerate_branch_def lock_condition_def has_reached_altitude_def
      xy_target_threshold_def scenario_def fresh_def
      sub3_def sub2_def xy_def z_of_def)

text \<open>
  C9. The code at two inputs of the accelerate branch: with a finite yaw waypoint the
  message "Yaw Waypoint not finite" is logged; with a yaw waypoint that is not finite
  nothing is logged. The specification asks for the opposite.
\<close>

theorem yaw_warning_inverted:
  "accelerate_branch (scenario\<lparr>yaw_wp := Finite 0\<rparr>) fresh
   \<and> warnings (generateXYsetpoints (scenario\<lparr>yaw_wp := Finite 0\<rparr>) fresh)
       = [''Yaw Waypoint not finite'']
   \<and> accelerate_branch (scenario\<lparr>yaw_wp := NAN\<rparr>) fresh
   \<and> warnings (generateXYsetpoints (scenario\<lparr>yaw_wp := NAN\<rparr>) fresh) = []"
proof -
  have w: "warnings fresh = []"
    by (simp add: fresh_def)
  show ?thesis
    using accel_warnings [OF scenario_accelerates [of "Finite 0"]]
      accel_warnings [OF scenario_accelerates [of NAN]]
    by (simp add: scenario_accelerates w)
qed

section \<open>Corner-speed evaluator: fixed points and monotonicity\<close>

text \<open>
  The coefficients of the exponential branch, for a middle speed m below half the cruise
  speed v: the factor is positive and the base lies strictly between 0 and 1.
\<close>

lemma corner_fit:
  fixes v m :: real
  assumes m: "0 < m" and half: "SIGMA_NORM \<le> v * 0.5 - m"
  defines "a \<equiv> - ((m - v) * (m - v)) / (2 * m - v - 0)"
  defines "c \<equiv> v - a"
  defines "b \<equiv> (m - c) / a"
  shows "0 < a" and "0 < b" and "b < 1"
proof -
  have eps: "0 < SIGMA_NORM" by (simp add: SIGMA_NORM_def)
  have d: "0 < v - 2 * m" using half eps by simp
  have vm: "0 < v - m" using d m by simp
  have a_eq: "a = (v - m) * (v - m) / (v - 2 * m)"
  proof -
    have "(m - v) * (m - v) = (v - m) * (v - m)" by (simp add: algebra_simps)
    moreover have "2 * m - v - 0 = - (v - 2 * m)" by simp
    ultimately show ?thesis
      unfolding a_def
      by (simp only: divide_minus_right minus_divide_left [symmetric] minus_minus)
  qed
  show a_pos: "0 < a" unfolding a_eq using d vm by simp
  have ad: "a * (v - 2 * m) = (v - m) * (v - m)" unfolding a_eq using d by simp
  have b_eq: "b = m / (v - m)"
  proof -
    have "(m - c) * (v - m) = a * m"
    proof -
      have "(m - c) * (v - m) * (v - 2 * m) = a * m * (v - 2 * m)"
        unfolding c_def using ad by (simp add: algebra_simps)
      with d show ?thesis by simp
    qed
    then show ?thesis unfolding b_def using a_pos vm by (simp add: field_simps)
  qed
  show "0 < b" unfolding b_eq using m vm by simp
  show "b < 1" unfolding b_eq using d vm by simp
qed

lemma middle_positive:
  assumes "\<not> mc_cruise_speed e < SIGMA_NORM"
  shows "0 < middle_cruise_speed e"
  using assms by (auto simp: middle_cruise_speed_def SIGMA_NORM_def Let_def)

lemma constrain_mono:
  "x \<le> y \<Longrightarrow> lo \<le> hi \<Longrightarrow> constrain x lo hi \<le> constrain y lo hi"
  by (auto simp: constrain_def)

lemma constrain_range: "lo \<le> hi \<Longrightarrow> lo \<le> constrain x lo hi \<and> constrain x lo hi \<le> hi"
  by (auto simp: constrain_def)

lemma constrain_id: "lo \<le> x \<Longrightarrow> x \<le> hi \<Longrightarrow> constrain x lo hi = x"
  by (auto simp: constrain_def)

text \<open>The three branches of the evaluator.\<close>

lemma corner_small:
  "mc_cruise_speed e < SIGMA_NORM \<Longrightarrow> getVelocityFromAngle e x = mc_cruise_speed e"
  by (simp add: getVelocityFromAngle_def)

lemma corner_linear:
  assumes "\<not> mc_cruise_speed e < SIGMA_NORM"
    and "mc_cruise_speed e * 0.5 - middle_cruise_speed e < SIGMA_NORM"
  shows "getVelocityFromAngle e x
           = constrain (- (mc_cruise_speed e / 2) * x + mc_cruise_speed e) 0 (mc_cruise_speed e)"
  using assms by (simp add: getVelocityFromAngle_def Let_def)

lemma corner_exponential:
  assumes "\<not> mc_cruise_speed e < SIGMA_NORM"
    and "\<not> mc_cruise_speed e * 0.5 - middle_cruise_speed e < SIGMA_NORM"
  shows "\<exists>a b c. 0 < a \<and> 0 < b \<and> b < 1
           \<and> (\<forall>x. getVelocityFromAngle e x
                    = constrain (a * b powr x + c) 0 (mc_cruise_speed e))"
proof -
  let ?v = "mc_cruise_speed e" and ?m = "middle_cruise_speed e"
  let ?a = "- ((?m - ?v) * (?m - ?v)) / (2 * ?m - ?v - 0)"
  let ?c = "?v - ?a"
  let ?b = "(?m - ?c) / ?a"
  have m: "0 < ?m" using assms(1) by (rule middle_positive)
  have half: "SIGMA_NORM \<le> ?v * 0.5 - ?m" using assms(2) by simp
  have "\<forall>x. getVelocityFromAngle e x = constrain (?a * ?b powr x + ?c) 0 ?v"
    using assms by (simp add: getVelocityFromAngle_def Let_def powf_def)
  with corner_fit [OF m half] show ?thesis by blast
qed

lemma scenario_corner: "getVelocityFromAngle scenario x = constrain (- (5 / 2) * x + 5) 0 5"
  by (simp add: getVelocityFromAngle_def middle_cruise_speed_def scenario_def SIGMA_NORM_def
      Let_def)





text \<open>
  C2, as the code has it. For a cruise speed above a positive middle speed, the
  evaluator's output does not increase as the angle increases over [0, 2].
\<close>

theorem corner_speed_antitone:
  assumes "cruise_speed_90 e < mc_cruise_speed e" and "0 < cruise_speed_90 e"
    and "0 \<le> x" and "x \<le> y" and "y \<le> 2"
  shows "getVelocityFromAngle e y \<le> getVelocityFromAngle e x"
proof -
  let ?v = "mc_cruise_speed e" and ?m = "middle_cruise_speed e"
  have v0: "0 \<le> ?v" using assms(1,2) by simp
  consider (small) "?v < SIGMA_NORM"
    | (linear) "\<not> ?v < SIGMA_NORM" "?v * 0.5 - ?m < SIGMA_NORM"
    | (exponential) "\<not> ?v < SIGMA_NORM" "\<not> ?v * 0.5 - ?m < SIGMA_NORM"
    by blast
  then show ?thesis
  proof cases
    case small
    then show ?thesis by (simp add: corner_small)
  next
    case linear
    have "- (?v / 2) * y + ?v \<le> - (?v / 2) * x + ?v"
      using v0 assms(4) by (simp add: mult_left_mono)
    then show ?thesis
      using v0 by (simp only: corner_linear [OF linear] constrain_mono)
  next
    case exponential
    from corner_exponential [OF exponential] obtain a b c where
      a: "0 < a" and b: "0 < b" "b < 1"
      and f: "\<And>x. getVelocityFromAngle e x = constrain (a * b powr x + c) 0 ?v"
      by blast
    have "b powr y \<le> b powr x"
      using assms(4) b by (simp add: powr_mono')
    then have "a * b powr y + c \<le> a * b powr x + c"
      using a by simp
    then show ?thesis
      using v0 by (simp only: f constrain_mono)
  qed
qed

theorem corner_speed_antitone_witness:
  "cruise_speed_90 scenario < mc_cruise_speed scenario \<and> 0 < cruise_speed_90 scenario
   \<and> (0::real) \<le> 1 \<and> (1::real) \<le> 2 \<and> (2::real) \<le> 2
   \<and> getVelocityFromAngle scenario 2 \<le> getVelocityFromAngle scenario 1"
  using corner_speed_antitone [of scenario 1 2]
  by (simp add: scenario_def)

text \<open>
  C2, as stated, fails: with cruise speed 5 and middle speed 3 the output at angle 0
  is above the output at angle 2.
\<close>

theorem corner_speed_monotone_counterexample:
  "cruise_speed_90 scenario < mc_cruise_speed scenario \<and> 0 < cruise_speed_90 scenario
   \<and> (0::real) \<le> 0 \<and> (0::real) \<le> 2 \<and> (2::real) \<le> 2
   \<and> \<not> getVelocityFromAngle scenario 0 \<le> getVelocityFromAngle scenario 2"
  by (simp add: scenario_corner constrain_def) (simp add: scenario_def)

section \<open>XY profile generator: bounded speed\<close>

lemma length2_scaled_unit:
  assumes "0 \<le> k"
  shows "0 \<le> length2 (smul2 (unit_or_zero v) k) \<and> length2 (smul2 (unit_or_zero v) k) \<le> k"
  using assms length2_unit_or_zero [of v] by (auto simp: length2_smul2)

lemma xy_velocity_form:
  "vel_sp_xy (generateXYsetpoints e s) = (0, 0)
   \<or> (\<exists>x. vel_sp_xy (generateXYsetpoints e s)
             = smul2 (u_prev_to_dest s) (constrain x 0 (mc_cruise_speed e)))"
  by (auto simp: generateXYsetpoints_def Let_def split: prod.splits)

lemma xy_generator_bounded:
  assumes "0 \<le> mc_cruise_speed e"
  shows "0 \<le> length2 (vel_sp_xy (generateXYsetpoints e s))
       \<and> length2 (vel_sp_xy (generateXYsetpoints e s)) \<le> mc_cruise_speed e"
  using xy_velocity_form [of e s]
proof
  assume "vel_sp_xy (generateXYsetpoints e s) = (0, 0)"
  with assms show ?thesis by simp
next
  assume "\<exists>x. vel_sp_xy (generateXYsetpoints e s)
             = smul2 (u_prev_to_dest s) (constrain x 0 (mc_cruise_speed e))"
  then obtain x where v: "vel_sp_xy (generateXYsetpoints e s)
             = smul2 (u_prev_to_dest s) (constrain x 0 (mc_cruise_speed e))" ..
  let ?k = "constrain x 0 (mc_cruise_speed e)"
  have k: "0 \<le> ?k \<and> ?k \<le> mc_cruise_speed e"
    using assms by (rule constrain_range)
  then have "0 \<le> length2 (smul2 (unit_or_zero (xy (sub3 (destination s) (origin s)))) ?k)
       \<and> length2 (smul2 (unit_or_zero (xy (sub3 (destination s) (origin s)))) ?k) \<le> ?k"
    by (simp add: length2_scaled_unit)
  with k show ?thesis
    by (simp add: v u_prev_to_dest_def)
qed

lemma update_following:
  assumes "wp_type e = wp_loiter \<or> wp_type e = wp_position"
  shows "vel_sp_xy (update e s)
         = vel_sp_xy (generateXYsetpoints e
             (generateAltitudeSetpoints e (updateInternalWaypoints e s)))"
  using assms by (auto simp: update_def generateSetpoints_def Let_def)

text \<open>
  C5. With a cruise speed that is not negative, the velocity setpoint the XY profile
  generator produces has a magnitude between 0 and the cruise speed, from whatever state
  it runs, and so has the one left by an update in loiter or position mode: the lock
  branch sets it to zero, the profile branch scales a unit-or-zero vector by a speed
  constrained to that range.
\<close>

theorem xy_speed_bounded:
  assumes "0 \<le> mc_cruise_speed e"
    and "wp_type e = wp_loiter \<or> wp_type e = wp_position"
  shows "0 \<le> length2 (vel_sp_xy (generateXYsetpoints e s))
       \<and> length2 (vel_sp_xy (generateXYsetpoints e s)) \<le> mc_cruise_speed e
       \<and> 0 \<le> length2 (vel_sp_xy (update e s))
       \<and> length2 (vel_sp_xy (update e s)) \<le> mc_cruise_speed e"
  using xy_generator_bounded [OF assms(1)]
  by (simp add: update_following [OF assms(2)])

theorem xy_speed_bounded_witness:
  "0 \<le> mc_cruise_speed scenario \<and> wp_type scenario = wp_position
   \<and> length2 (vel_sp_xy (generateXYsetpoints scenario fresh)) \<le> 5
   \<and> length2 (vel_sp_xy (update scenario fresh)) \<le> 5"
proof -
  have h: "0 \<le> mc_cruise_speed scenario"
    "wp_type scenario = wp_loiter \<or> wp_type scenario = wp_position"
    "mc_cruise_speed scenario = 5" "wp_type scenario = wp_position"
    by (simp_all add: scenario_def)
  show ?thesis
    using xy_speed_bounded [OF h(1,2), of fresh] h by simp
qed


section \<open>Z profile generator: bounded speed\<close>

lemma altitude_slope_bound:
  fixes V t :: real
  assumes "0 \<le> V" and "0 \<le> t" and "t \<le> V * 1.5"
  shows "(V - 0.2) / (V * 1.5) * t + 0.2 \<le> max V 0.2"
proof -
  define k where "k = (V - 0.2) / (V * 1.5)"
  have "k * t \<le> max V 0.2 - 0.2"
  proof (cases "0.2 \<le> V")
    case True
    then have T0: "0 < V * 1.5" by simp
    have "0 \<le> k" using True T0 by (simp add: k_def)
    with assms(3) have "k * t \<le> k * (V * 1.5)"
      by (rule mult_left_mono)
    also have "\<dots> = V - 0.2" using T0 by (simp add: k_def)
    finally show ?thesis by simp
  next
    case False
    then have "k \<le> 0"
      using assms(1) by (simp add: k_def divide_nonpos_nonneg)
    from this assms(2) have "k * t \<le> 0"
      by (rule mult_nonpos_nonneg)
    then show ?thesis by simp
  qed
  then show ?thesis by (simp add: k_def)
qed

lemma altitude_speed_bound:
  assumes V: "0 \<le> vel_max_up e" "0 \<le> vel_max_down e" and dt: "0 < deltatime e"
  shows "altitude_speed e s \<le> max (max (vel_max_up e) (vel_max_down e)) 0.2"
proof -
  define V where "V = (if flying_upward e s then vel_max_up e else vel_max_down e)"
  define dist where "dist = \<bar>z_of (destination s) - z_of (origin s)\<bar>"
  define d where "d = \<bar>z_of (destination s) - z_of (position e)\<bar>"
  define T where "T = (if \<not> dist \<ge> 2 * (V * 1.5) then dist * 0.5 else V * 1.5)"
  define S1 where "S1 = (if \<not> dist \<ge> 2 * (V * 1.5)
                         then (V - 0.2) / (V * 1.5) * T + 0.2 else V)"
  define w where "w = \<bar>vel_sp_z s\<bar>"
  define amax where "amax = (if flying_upward e s then acc_max_up e * 0.5 else acc_max_down e * 0.5)"
  have V0: "0 \<le> V" using V by (simp add: V_def)
  have Vle: "max V 0.2 \<le> max (max (vel_max_up e) (vel_max_down e)) 0.2"
    by (auto simp: V_def)
  have T: "0 \<le> T" "T \<le> V * 1.5"
    using V0 by (auto simp: T_def dist_def)
  have S1: "S1 \<le> max V 0.2"
    using altitude_slope_bound [OF V0 T] by (auto simp: S1_def)
  have dec: "(V - 0.2) / (V * 1.5) * d + 0.2 \<le> max V 0.2" if "d < T"
    using altitude_slope_bound [OF V0, of d] that T by (simp add: d_def)
  have acc: "amax * deltatime e + w \<le> S1" if "(S1 - w) / deltatime e > amax"
  proof -
    from that dt have "amax * deltatime e < S1 - w"
      by (simp add: pos_less_divide_eq)
    then show ?thesis by simp
  qed
  have "altitude_speed e s =
          (if d < T then (V - 0.2) / (V * 1.5) * d + 0.2
           else if \<bar>z_of (position e) - z_of (origin s)\<bar> < T then
             (if (S1 - w) / deltatime e > amax then amax * deltatime e + w else S1)
           else S1)"
    unfolding altitude_speed_def Let_def V_def dist_def d_def T_def S1_def w_def amax_def
    by simp
  then have "altitude_speed e s \<le> max V 0.2"
    using S1 dec acc by (auto split: if_splits)
  with Vle show ?thesis by simp
qed

text \<open>
  C6, as the code has it. With speed and acceleration limits that are not negative and a
  positive tick, the vertical velocity setpoint is at most the larger of the two speed
  limits and the minimum velocity 0.2 of the profile, in magnitude.
\<close>

theorem z_speed_bounded:
  assumes "0 \<le> vel_max_up e" and "0 \<le> vel_max_down e"
    and "0 \<le> acc_max_up e" and "0 \<le> acc_max_down e" and "0 < deltatime e"
  shows "\<bar>vel_sp_z (generateAltitudeSetpoints e s)\<bar>
           \<le> max (max (vel_max_up e) (vel_max_down e)) 0.2"
proof -
  have b: "altitude_speed e s \<le> max (max (vel_max_up e) (vel_max_down e)) 0.2"
    using assms(1,2,5) by (rule altitude_speed_bound)
  have "0 \<le> max (max (vel_max_up e) (vel_max_down e)) (0.2::real)"
    by simp
  with b show ?thesis
    by (simp add: generateAltitudeSetpoints_def Let_def PX4_WARN_def)
qed

lemma slow_descent_speed:
  "vel_sp_z (generateAltitudeSetpoints slow_descent descending) = 0.15"
  by (simp add: generateAltitudeSetpoints_def altitude_speed_def flying_upward_def Let_def
      slow_descent_def descending_def scenario_def fresh_def z_of_def SIGMA_NORM_def)

theorem z_speed_bounded_witness:
  "0 \<le> vel_max_up slow_descent \<and> 0 \<le> vel_max_down slow_descent
   \<and> 0 \<le> acc_max_up slow_descent \<and> 0 \<le> acc_max_down slow_descent
   \<and> 0 < deltatime slow_descent
   \<and> \<bar>vel_sp_z (generateAltitudeSetpoints slow_descent descending)\<bar> \<le> 0.2"
proof -
  have h: "0 \<le> vel_max_up slow_descent" "0 \<le> vel_max_down slow_descent"
    "0 \<le> acc_max_up slow_descent" "0 \<le> acc_max_down slow_descent"
    "0 < deltatime slow_descent"
    "max (max (vel_max_up slow_descent) (vel_max_down slow_descent)) 0.2 = 0.2"
    by (simp_all add: slow_descent_def scenario_def)
  show ?thesis
    using z_speed_bounded [OF h(1-5), of descending] h by simp
qed

text \<open>
  C6, as stated, fails: with both speed limits at 0.125 the decelerate branch, which
  runs down to the minimum velocity 0.2 and not to 0, commands 0.15.
\<close>

theorem z_speed_bounded_counterexample:
  "0 \<le> vel_max_up slow_descent \<and> 0 \<le> vel_max_down slow_descent
   \<and> 0 \<le> acc_max_up slow_descent \<and> 0 \<le> acc_max_down slow_descent
   \<and> 0 < deltatime slow_descent
   \<and> \<not> \<bar>vel_sp_z (generateAltitudeSetpoints slow_descent descending)\<bar>
         \<le> max (vel_max_up slow_descent) (vel_max_down slow_descent)"
  by (simp add: slow_descent_speed) (simp add: slow_descent_def scenario_def)

section \<open>Lock: a second update\<close>

lemma selector_settled:
  assumes "current_state t = current_state (updateInternalWaypoints e s)"
    and "destination t = destination (updateInternalWaypoints e s)"
  shows "updateInternalWaypoints e t = t"
  using assms
  by (simp add: updateInternalWaypoints_def enter_def split: if_splits)

lemma altitude_frame:
  "destination (generateAltitudeSetpoints e s) = destination s"
  "origin (generateAltitudeSetpoints e s) = origin s"
  "current_state (generateAltitudeSetpoints e s) = current_state s"
  "speed_at_target (generateAltitudeSetpoints e s) = speed_at_target s"
  "pos_sp_xy (generateAltitudeSetpoints e s) = pos_sp_xy s"
  "vel_sp_xy (generateAltitudeSetpoints e s) = vel_sp_xy s"
  by (simp_all add: generateAltitudeSetpoints_def Let_def PX4_WARN_def)

lemma altitude_pos_sp_z_cong:
  assumes "destination t = destination s" and "origin t = origin s"
  shows "pos_sp_z (generateAltitudeSetpoints e t) = pos_sp_z (generateAltitudeSetpoints e s)"
  using assms by (simp add: generateAltitudeSetpoints_def Let_def PX4_WARN_def)

lemma altitude_speed_cong:
  assumes dest: "destination t = destination s" and orig: "origin t = origin s"
    and moving: "\<bar>z_of (destination s) - z_of (origin s)\<bar> > SIGMA_NORM"
      "\<bar>z_of (position e) - z_of (destination s)\<bar> > 0.1"
    and nacc: "\<not> altitude_accelerate_branch e t"
  shows "altitude_speed e t = altitude_speed e s"
proof -
  define V where "V = (if flying_upward e s then vel_max_up e else vel_max_down e)"
  define dist where "dist = \<bar>z_of (destination s) - z_of (origin s)\<bar>"
  define d where "d = \<bar>z_of (destination s) - z_of (position e)\<bar>"
  define dp where "dp = \<bar>z_of (position e) - z_of (origin s)\<bar>"
  define T where "T = (if \<not> dist \<ge> 2 * (V * 1.5) then dist * 0.5 else V * 1.5)"
  define S1 where "S1 = (if \<not> dist \<ge> 2 * (V * 1.5)
                         then (V - 0.2) / (V * 1.5) * T + 0.2 else V)"
  define amax where "amax = (if flying_upward e s then acc_max_up e * 0.5 else acc_max_down e * 0.5)"
  have up: "flying_upward e t = flying_upward e s"
    using dest by (simp add: flying_upward_def)
  have form: "altitude_speed e x =
          (if d < T then (V - 0.2) / (V * 1.5) * d + 0.2
           else if dp < T then
             (if (S1 - \<bar>vel_sp_z x\<bar>) / deltatime e > amax
              then amax * deltatime e + \<bar>vel_sp_z x\<bar> else S1)
           else S1)"
    if "destination x = destination s" and "origin x = origin s" for x
  proof -
    have "flying_upward e x = flying_upward e s"
      using that by (simp add: flying_upward_def)
    then show ?thesis
      unfolding altitude_speed_def Let_def V_def dist_def d_def dp_def T_def S1_def amax_def
      using that by simp
  qed
  have "altitude_accelerate_branch e t \<longleftrightarrow>
          dist > SIGMA_NORM \<and> \<bar>z_of (position e) - z_of (destination s)\<bar> > 0.1
          \<and> \<not> d < T \<and> dp < T"
    unfolding altitude_accelerate_branch_def Let_def V_def dist_def d_def dp_def T_def
    using dest orig up by simp
  with nacc moving have "d < T \<or> \<not> dp < T"
    by (auto simp: dist_def)
  then show ?thesis
    by (auto simp: form [OF dest orig] form [OF refl refl])
qed

lemma altitude_vel_sp_z_cong:
  assumes "destination t = destination s" and "origin t = origin s"
    and "\<not> altitude_accelerate_branch e t"
  shows "vel_sp_z (generateAltitudeSetpoints e t) = vel_sp_z (generateAltitudeSetpoints e s)"
proof (cases "\<bar>z_of (destination s) - z_of (origin s)\<bar> > SIGMA_NORM
              \<and> \<bar>z_of (position e) - z_of (destination s)\<bar> > 0.1")
  case False
  then show ?thesis
    using assms(1,2) by (auto simp: generateAltitudeSetpoints_def Let_def)
next
  case True
  then have "altitude_speed e t = altitude_speed e s"
    using assms by (simp add: altitude_speed_cong)
  then show ?thesis
    using assms(1,2)
    by (simp add: generateAltitudeSetpoints_def flying_upward_def Let_def PX4_WARN_def)
qed

lemma update_lock_form:
  assumes "wp_type e = wp_loiter \<or> wp_type e = wp_position" and "update_locks e s"
  shows "update e s =
     (generateAltitudeSetpoints e (updateInternalWaypoints e s))
       \<lparr>pos_sp_xy := xy (destination (updateInternalWaypoints e s)),
        vel_sp_xy := (0, 0),
        position_setpoint :=
          (Finite (fst (xy (destination (updateInternalWaypoints e s)))),
           Finite (snd (xy (destination (updateInternalWaypoints e s)))),
           pos_sp_z (generateAltitudeSetpoints e (updateInternalWaypoints e s))),
        velocity_setpoint :=
          (Finite 0, Finite 0,
           Finite (vel_sp_z (generateAltitudeSetpoints e (updateInternalWaypoints e s)))),
        yaw_setpoint := yaw_wp e\<rparr>"
  using assms
  by (auto simp: update_def update_locks_def generateSetpoints_def generateXYsetpoints_def
      altitude_frame Let_def)


lemma lock_condition_cong:
  assumes "speed_at_target t = speed_at_target s" and "destination t = destination s"
    and "lock_condition e s"
    and "length2 (sub2 (xy (target e)) (pos_sp_xy t)) < nav_rad e"
  shows "lock_condition e t"
  using assms by (auto simp: lock_condition_def has_reached_altitude_def Let_def)

lemma update_lock_fields:
  assumes mode: "wp_type e = wp_loiter \<or> wp_type e = wp_position"
    and lock: "update_locks e s"
  shows "current_state (update e s) = current_state (updateInternalWaypoints e s)"
    "destination (update e s) = destination (updateInternalWaypoints e s)"
    "origin (update e s) = origin (updateInternalWaypoints e s)"
    "speed_at_target (update e s) = speed_at_target (updateInternalWaypoints e s)"
    "pos_sp_xy (update e s) = xy (destination (updateInternalWaypoints e s))"
    "position_setpoint (update e s) =
          (Finite (fst (xy (destination (updateInternalWaypoints e s)))),
           Finite (snd (xy (destination (updateInternalWaypoints e s)))),
           pos_sp_z (generateAltitudeSetpoints e (updateInternalWaypoints e s)))"
    "velocity_setpoint (update e s) =
          (Finite 0, Finite 0,
           Finite (vel_sp_z (generateAltitudeSetpoints e (updateInternalWaypoints e s))))"
    "yaw_setpoint (update e s) = yaw_wp e"
    "vel_sp_z (update e s)
       = vel_sp_z (generateAltitudeSetpoints e (updateInternalWaypoints e s))"
  by (simp_all add: update_lock_form [OF mode lock] altitude_frame)


lemma second_tick_settled:
  assumes mode: "wp_type e = wp_loiter \<or> wp_type e = wp_position"
    and lock: "update_locks e s"
  shows "updateInternalWaypoints e (update e s) = update e s"
  using update_lock_fields(1,2) [OF mode lock] by (rule selector_settled)

lemma second_tick_locks:
  assumes mode: "wp_type e = wp_loiter \<or> wp_type e = wp_position"
    and lock: "update_locks e s"
    and near: "length2 (sub2 (xy (target e)) (xy (destination (update e s)))) < nav_rad e"
    and settled: "updateInternalWaypoints e (update e s) = update e s"
  shows "update_locks e (update e s)"
proof -
  note f1 = update_lock_fields [OF mode lock]
  have la: "lock_condition e (generateAltitudeSetpoints e (updateInternalWaypoints e s))"
    using lock by (simp add: update_locks_def)
  have n: "length2 (sub2 (xy (target e)) (pos_sp_xy (generateAltitudeSetpoints e (update e s)))) < nav_rad e"
    using near by (simp only: altitude_frame f1(5) f1(2))
  have "lock_condition e (generateAltitudeSetpoints e (update e s))"
    using _ _ la n
  proof (rule lock_condition_cong)
    show "speed_at_target (generateAltitudeSetpoints e (update e s))
          = speed_at_target (generateAltitudeSetpoints e (updateInternalWaypoints e s))"
      by (simp only: altitude_frame f1(4))
    show "destination (generateAltitudeSetpoints e (update e s))
          = destination (generateAltitudeSetpoints e (updateInternalWaypoints e s))"
      by (simp only: altitude_frame f1(2))
  qed
  then show ?thesis
    by (simp only: update_locks_def settled)
qed


text \<open>
  C7, as the code has it. If an update in loiter or position mode takes the XY lock
  branch and the internal destination it leaves lies within the acceptance radius of the
  target horizontally, then a second update with the same inputs takes the lock branch
  again and produces the same position setpoint, the same horizontal velocity setpoint
  and the same yaw setpoint; the vertical velocity setpoint is the same too when the Z
  profile is not in its accelerate branch.
\<close>

theorem lock_idempotent:
  assumes mode: "wp_type e = wp_loiter \<or> wp_type e = wp_position"
    and lock: "update_locks e s"
    and near: "length2 (sub2 (xy (target e)) (xy (destination (update e s)))) < nav_rad e"
  shows "update_locks e (update e s)
       \<and> position_setpoint (update e (update e s)) = position_setpoint (update e s)
       \<and> yaw_setpoint (update e (update e s)) = yaw_setpoint (update e s)
       \<and> fst (velocity_setpoint (update e (update e s))) = fst (velocity_setpoint (update e s))
       \<and> fst (snd (velocity_setpoint (update e (update e s))))
           = fst (snd (velocity_setpoint (update e s)))
       \<and> (\<not> altitude_accelerate_branch e (update e s)
            \<longrightarrow> velocity_setpoint (update e (update e s)) = velocity_setpoint (update e s))"
proof -
  note f1 = update_lock_fields [OF mode lock]
  have settled: "updateInternalWaypoints e (update e s) = update e s"
    using mode lock by (rule second_tick_settled)
  have lock2: "update_locks e (update e s)"
    using mode lock near settled by (rule second_tick_locks)
  note f2 = update_lock_fields [OF mode lock2, unfolded settled]
  have pz: "pos_sp_z (generateAltitudeSetpoints e (update e s))
            = pos_sp_z (generateAltitudeSetpoints e (updateInternalWaypoints e s))"
    using f1(2,3) by (rule altitude_pos_sp_z_cong)
  have vz: "vel_sp_z (generateAltitudeSetpoints e (update e s))
            = vel_sp_z (generateAltitudeSetpoints e (updateInternalWaypoints e s))"
    if "\<not> altitude_accelerate_branch e (update e s)"
    using f1(2,3) that by (rule altitude_vel_sp_z_cong)
  have p: "position_setpoint (update e (update e s)) = position_setpoint (update e s)"
    by (simp only: f2(6) f1(6) f1(2) pz)
  have y: "yaw_setpoint (update e (update e s)) = yaw_setpoint (update e s)"
    by (simp only: f2(8) f1(8))
  have vx: "fst (velocity_setpoint (update e (update e s))) = fst (velocity_setpoint (update e s))"
    by (simp only: f2(7) f1(7) fst_conv)
  have vy: "fst (snd (velocity_setpoint (update e (update e s))))
            = fst (snd (velocity_setpoint (update e s)))"
    by (simp only: f2(7) f1(7) fst_conv snd_conv)
  have v: "velocity_setpoint (update e (update e s)) = velocity_setpoint (update e s)"
    if "\<not> altitude_accelerate_branch e (update e s)"
    by (simp only: f2(7) f1(7) vz [OF that])
  from lock2 p y vx vy v show ?thesis
    by blast
qed


lemma arrived_on_segment: "recovery_state arrived = None"
  by (simp add: recovery_state_def is_target_behind_def is_previous_infront_def is_offtrack_def
      track_closest_pt_def u_prev_to_target_def arrived_def scenario_def
      sub3_def sub2_def add2_def smul2_def xy_def unit_or_zero_def dot2_def SIGMA_SINGLE_OP_def)

lemma arrived_locks: "update_locks arrived holding"
proof -
  have "updateInternalWaypoints arrived holding = holding"
    using arrived_on_segment
    by (rule on_segment_same_target) (simp add: arrived_def holding_def scenario_def fresh_def)
  then show ?thesis
    by (simp add: update_locks_def lock_condition_def altitude_frame)
       (simp add: arrived_def holding_def scenario_def fresh_def sub2_def xy_def)
qed

theorem lock_idempotent_witness:
  "wp_type arrived = wp_position \<and> update_locks arrived holding
   \<and> length2 (sub2 (xy (target arrived)) (xy (destination (update arrived holding))))
       < nav_rad arrived
   \<and> \<not> altitude_accelerate_branch arrived (update arrived holding)
   \<and> position_setpoint (update arrived (update arrived holding))
       = position_setpoint (update arrived holding)
   \<and> velocity_setpoint (update arrived (update arrived holding))
       = velocity_setpoint (update arrived holding)
   \<and> yaw_setpoint (update arrived (update arrived holding))
       = yaw_setpoint (update arrived holding)"
proof -
  have mode: "wp_type arrived = wp_loiter \<or> wp_type arrived = wp_position"
    and pos: "wp_type arrived = wp_position"
    by (simp_all add: arrived_def scenario_def)
  have stay: "updateInternalWaypoints arrived holding = holding"
    using arrived_on_segment
    by (rule on_segment_same_target) (simp add: arrived_def holding_def scenario_def fresh_def)
  note f = update_lock_fields [OF mode arrived_locks, unfolded stay]
  have near: "length2 (sub2 (xy (target arrived)) (xy (destination (update arrived holding))))
       < nav_rad arrived"
    by (simp add: f(2)) (simp add: arrived_def holding_def scenario_def fresh_def sub2_def xy_def)
  have nacc: "\<not> altitude_accelerate_branch arrived (update arrived holding)"
    by (simp add: altitude_accelerate_branch_def f(2,3) Let_def)
       (simp add: holding_def fresh_def z_of_def SIGMA_NORM_def)
  show ?thesis
    using lock_idempotent [OF mode arrived_locks near] pos arrived_locks near nacc
    by simp
qed

lemma climb_on_segment: "recovery_state climb_start = None"
  by (simp add: recovery_state_def is_target_behind_def is_previous_infront_def is_offtrack_def
      track_closest_pt_def u_prev_to_target_def climb_start_def scenario_def
      sub3_def sub2_def add2_def smul2_def xy_def unit_or_zero_def dot2_def SIGMA_SINGLE_OP_def)

lemma climb_step:
  assumes "destination t = (0, 0, -20)" and "origin t = (0, 0, 0)" and "\<bar>vel_sp_z t\<bar> < 1"
  shows "vel_sp_z (generateAltitudeSetpoints climb_start t) = - (0.04 + \<bar>vel_sp_z t\<bar>)"
proof -
  have "\<not> 1 / 25 + \<bar>vel_sp_z t\<bar> < 0"
    by simp
  with assms show ?thesis
    by (simp add: generateAltitudeSetpoints_def altitude_speed_def flying_upward_def Let_def
        climb_start_def scenario_def z_of_def SIGMA_NORM_def)
qed

lemma climb_locks: "update_locks climb_start on_ground"
proof -
  have "updateInternalWaypoints climb_start on_ground = on_ground"
    using climb_on_segment
    by (rule on_segment_same_target) (simp add: climb_start_def on_ground_def scenario_def)
  then show ?thesis
    by (simp add: update_locks_def lock_condition_def altitude_frame)
       (simp add: climb_start_def on_ground_def scenario_def fresh_def sub2_def xy_def)
qed

text \<open>
  C7, as stated, fails: at the start of a climb the XY generator locks on both ticks,
  and the Z profile ramps the vertical velocity setpoint from -0.04 to -0.08.
\<close>

theorem lock_idempotent_counterexample:
  "wp_type climb_start = wp_position \<and> update_locks climb_start on_ground
   \<and> velocity_setpoint (update climb_start (update climb_start on_ground))
       \<noteq> velocity_setpoint (update climb_start on_ground)"
proof -
  have mode: "wp_type climb_start = wp_loiter \<or> wp_type climb_start = wp_position"
    and pos: "wp_type climb_start = wp_position"
    by (simp_all add: climb_start_def scenario_def)
  have stay: "updateInternalWaypoints climb_start on_ground = on_ground"
    using climb_on_segment
    by (rule on_segment_same_target) (simp add: climb_start_def on_ground_def scenario_def)
  note f1 = update_lock_fields [OF mode climb_locks, unfolded stay]
  have z1: "vel_sp_z (generateAltitudeSetpoints climb_start on_ground) = - 0.04"
    using climb_step [of on_ground] by (simp add: on_ground_def fresh_def)
  have settled: "updateInternalWaypoints climb_start (update climb_start on_ground)
                 = update climb_start on_ground"
    using mode climb_locks by (rule second_tick_settled)
  have near: "length2 (sub2 (xy (target climb_start))
                 (xy (destination (update climb_start on_ground)))) < nav_rad climb_start"
    by (simp add: f1(2))
       (simp add: climb_start_def on_ground_def scenario_def fresh_def sub2_def xy_def)
  have lock2: "update_locks climb_start (update climb_start on_ground)"
    using mode climb_locks near settled by (rule second_tick_locks)
  note f2 = update_lock_fields [OF mode lock2, unfolded settled]
  have z2: "vel_sp_z (generateAltitudeSetpoints climb_start (update climb_start on_ground))
            = - 0.08"
    using climb_step [of "update climb_start on_ground"]
    by (simp add: f1(2,3,9) z1) (simp add: on_ground_def fresh_def)
  show ?thesis
    using pos climb_locks by (simp add: f2(7) f1(7) z1 z2)
qed

end
